theory Spec2Isabelle
  imports Complex_Main
begin

section \<open>The IMU sensor of gazebo/sensors/ImuSensor.cc\<close>

text \<open>
  A shallow embedding of \<^verbatim>\<open>ImuSensor\<close>. The object's members are the fields of the
  record \<open>ImuSensor\<close>; every method takes the object and returns the updated one. A
  method that throws, or that dereferences \<^verbatim>\<open>parentEntity\<close> while it is null, returns
  \<open>Inl\<close> of an error. C++ \<^verbatim>\<open>double\<close> is modelled by \<open>real\<close>: rounding is not
  modelled. The mutex of \<^verbatim>\<open>OnLinkData\<close> and \<^verbatim>\<open>UpdateImpl\<close> is not modelled: methods
  run one after the other. The \<^verbatim>\<open>gzerr\<close> log line of \<^verbatim>\<open>UpdateImpl\<close> writes no member
  and is left out.
\<close>

subsection \<open>Vectors, quaternions and poses\<close>

record Vector3 =
  vx :: real
  vy :: real
  vz :: real

record Quaternion =
  qw :: real
  qx :: real
  qy :: real
  qz :: real

record Pose =
  pos :: Vector3
  rot :: Quaternion

type_synonym Time = real

definition Vec :: "real \<Rightarrow> real \<Rightarrow> real \<Rightarrow> Vector3" where
  "Vec a b c = \<lparr>vx = a, vy = b, vz = c\<rparr>"

definition Quat :: "real \<Rightarrow> real \<Rightarrow> real \<Rightarrow> real \<Rightarrow> Quaternion" where
  "Quat a b c d = \<lparr>qw = a, qx = b, qy = c, qz = d\<rparr>"

definition Quaternion_identity :: Quaternion where
  "Quaternion_identity = Quat 1 0 0 0"

text \<open>
  Modelled from the spec: \<^verbatim>\<open>gazebo/math/Vector3\<close> is not under src/. The spec's
  Differentiator subtracts two velocities and divides by the time delta, componentwise.
\<close>

definition Vector3_minus :: "Vector3 \<Rightarrow> Vector3 \<Rightarrow> Vector3" where
  "Vector3_minus a b = Vec (vx a - vx b) (vy a - vy b) (vz a - vz b)"

definition Vector3_plus :: "Vector3 \<Rightarrow> Vector3 \<Rightarrow> Vector3" where
  "Vector3_plus a b = Vec (vx a + vx b) (vy a + vy b) (vz a + vz b)"

definition Vector3_div :: "Vector3 \<Rightarrow> real \<Rightarrow> Vector3" where
  "Vector3_div a d = Vec (vx a / d) (vy a / d) (vz a / d)"

text \<open>
  Modelled from the spec: \<^verbatim>\<open>gazebo/math/Quaternion\<close> is not under src/. The spec names
  composition, \<open>inverse\<close> and \<open>rotateIntoBodyFrame\<close> on unit quaternions; they are the
  Hamilton product, the conjugate divided by the squared norm (the identity for the zero
  quaternion, which has no inverse), and conjugation of the vector taken as a pure
  quaternion.
\<close>

definition Quaternion_mult :: "Quaternion \<Rightarrow> Quaternion \<Rightarrow> Quaternion" where
  "Quaternion_mult a b =
     Quat (qw a * qw b - qx a * qx b - qy a * qy b - qz a * qz b)
          (qw a * qx b + qx a * qw b + qy a * qz b - qz a * qy b)
          (qw a * qy b - qx a * qz b + qy a * qw b + qz a * qx b)
          (qw a * qz b + qx a * qy b - qy a * qx b + qz a * qw b)"

definition GetInverse :: "Quaternion \<Rightarrow> Quaternion" where
  "GetInverse q =
     (let s = qw q * qw q + qx q * qx q + qy q * qy q + qz q * qz q
      in if s = 0 then Quaternion_identity
         else Quat (qw q / s) (- qx q / s) (- qy q / s) (- qz q / s))"

definition RotateVector :: "Quaternion \<Rightarrow> Vector3 \<Rightarrow> Vector3" where
  "RotateVector q v =
     (let tmp = Quaternion_mult q
                  (Quaternion_mult (Quat 0 (vx v) (vy v) (vz v)) (GetInverse q))
      in Vec (qx tmp) (qy tmp) (qz tmp))"

text \<open>
  Modelled from the spec: \<^verbatim>\<open>gazebo/math/Pose\<close> is not under src/. \<open>a + b\<close> composes the
  local pose \<open>a\<close> onto the pose \<open>b\<close> of its parent: the position of \<open>a\<close> is rotated by
  \<open>b\<close> and added to the position of \<open>b\<close>, the rotations are multiplied.
\<close>

definition Pose_plus :: "Pose \<Rightarrow> Pose \<Rightarrow> Pose" where
  "Pose_plus a b =
     \<lparr>pos = Vector3_plus (pos b) (RotateVector (rot b) (pos a)),
      rot = Quaternion_mult (rot b) (rot a)\<rparr>"

subsection \<open>Messages\<close>

record Vector3d_msg =
  msg_x :: real
  msg_y :: real
  msg_z :: real

record Quaternion_msg =
  msg_qx :: real
  msg_qy :: real
  msg_qz :: real
  msg_qw :: real

record IMU_msg =
  entity_name :: string
  stamp :: Time
  orientation :: Quaternion_msg
  angular_velocity :: Vector3d_msg
  linear_acceleration :: Vector3d_msg

record Request_msg =
  request_id :: int
  request :: string

record Response_msg =
  response_id :: int

text \<open>
  Modelled from the spec: the message type \<^verbatim>\<open>msgs::LinkData\<close> is not under src/; the
  spec's KinematicSample is a timestamped snapshot of the parent body's world pose, linear
  velocity and angular velocity.
\<close>

record LinkData =
  sample_time :: Time
  sample_pose :: Pose
  sample_linear_velocity :: Vector3
  sample_angular_velocity :: Vector3

text \<open>
  Modelled from the spec: \<^verbatim>\<open>msgs::Set\<close> and \<^verbatim>\<open>msgs::Convert\<close> are not under src/; the
  reading carries the three components of a vector and the four of a quaternion, and they
  copy them into and out of the message.
\<close>

definition Set_Vector3d :: "Vector3 \<Rightarrow> Vector3d_msg" where
  "Set_Vector3d v = \<lparr>msg_x = vx v, msg_y = vy v, msg_z = vz v\<rparr>"

definition Convert_Vector3d :: "Vector3d_msg \<Rightarrow> Vector3" where
  "Convert_Vector3d m = Vec (msg_x m) (msg_y m) (msg_z m)"

definition Set_Quaternion :: "Quaternion \<Rightarrow> Quaternion_msg" where
  "Set_Quaternion q = \<lparr>msg_qx = qx q, msg_qy = qy q, msg_qz = qz q, msg_qw = qw q\<rparr>"

definition Convert_Quaternion :: "Quaternion_msg \<Rightarrow> Quaternion" where
  "Convert_Quaternion m = Quat (msg_qw m) (msg_qx m) (msg_qy m) (msg_qz m)"

text \<open>
  Modelled from the spec: \<^verbatim>\<open>msgs::CreateRequest\<close> is not under src/; a discovery request
  carries a purpose tag and a unique id. The id is drawn by the caller and passed in.
\<close>

definition CreateRequest :: "string \<Rightarrow> int \<Rightarrow> Request_msg" where
  "CreateRequest purpose fresh = \<lparr>request_id = fresh, request = purpose\<rparr>"

subsection \<open>The transport node, the description and the physics world\<close>

datatype callback = CbOnResponse | CbOnLinkData

datatype wire_msg = IMU_wire IMU_msg | Request_wire Request_msg

type_synonym Publisher = string

type_synonym Subscriber = "string \<times> callback"

record sdf_imu =
  topic :: "string option"

record sdf_element =
  imu :: "sdf_imu option"

text \<open>
  A \<^verbatim>\<open>LinkPtr\<close> is an address; \<open>None\<close> is the null pointer. What a link reports when it
  is queried is a \<open>link_state\<close>, looked up in the world of the moment of the call.
  \<^verbatim>\<open>GetWorldLinearVel(timestamp, offset)\<close> writes the time stamp of the velocity to its
  first argument and returns the velocity of the point at \<open>offset\<close>.
\<close>

type_synonym LinkPtr = nat

record link_state =
  GetScopedName :: string
  GetWorldPose :: Pose
  GetWorldLinearVel :: Vector3
  GetWorldLinearVelAt :: "Vector3 \<Rightarrow> Time \<times> Vector3"
  GetWorldAngularVel :: Vector3

datatype entity = LinkEntity LinkPtr | OtherEntity

record World =
  GetEntity :: "string \<Rightarrow> entity option"
  link_at :: "LinkPtr \<Rightarrow> link_state"
  GetGravity :: Vector3

text \<open>\<^verbatim>\<open>boost::shared_dynamic_cast<physics::Link>\<close>: null for null and for any other class.\<close>

fun dynamic_cast_Link :: "entity option \<Rightarrow> LinkPtr option" where
  "dynamic_cast_Link (Some (LinkEntity p)) = Some p"
| "dynamic_cast_Link _ = None"

subsection \<open>The sensor object\<close>

datatype imu_error =
    GzThrow string
  | NullParentEntity

record ImuSensor =
  sdf :: sdf_element
  parentName :: string
  sensorName :: string
  pose :: Pose
  active :: bool
  parentEntity :: "LinkPtr option"
  referencePose :: Pose
  lastLinearVel :: Vector3
  lastMeasurementTime :: Time
  linearAcc :: Vector3
  gravity :: Vector3
  imuMsg :: IMU_msg
  pub :: "Publisher option"
  requestPub :: "Publisher option"
  responseSub :: "Subscriber option"
  requestMsg :: "Request_msg option"
  incomingLinkData :: "LinkData list"
  sent :: "(string \<times> wire_msg) list"

text \<open>
  \<open>sent\<close> is the trace of the messages handed to the transport by \<^verbatim>\<open>Publish\<close>, each with
  the topic of its publisher, oldest first.
\<close>

text \<open>
  Modelled from the spec: the base class \<^verbatim>\<open>Sensor\<close> is not under src/. Its two
  \<^verbatim>\<open>Load\<close> methods make the description and the world available as \<^verbatim>\<open>this->sdf\<close> and
  \<^verbatim>\<open>this->world\<close>; the world is passed to each method that reads it. \<^verbatim>\<open>IsActive\<close>
  and \<^verbatim>\<open>GetName\<close> read the activation flag and the sensor's name.
\<close>

definition Sensor_Load_sdf :: "sdf_element \<Rightarrow> ImuSensor \<Rightarrow> ImuSensor" where
  "Sensor_Load_sdf d s = s\<lparr>sdf := d\<rparr>"

definition IsActive :: "ImuSensor \<Rightarrow> bool" where
  "IsActive s = active s"

definition GetName :: "ImuSensor \<Rightarrow> string" where
  "GetName s = sensorName s"

definition SetActive :: "bool \<Rightarrow> ImuSensor \<Rightarrow> ImuSensor" where
  "SetActive b s = s\<lparr>active := b\<rparr>"

text \<open>\<^verbatim>\<open>boost::replace_all(topicName, "::", "/")\<close>: left to right, without overlap.\<close>

fun replace_all_colons :: "string \<Rightarrow> string" where
  "replace_all_colons (a # b # cs) =
     (if a = CHR '':'' \<and> b = CHR '':'' then CHR ''/'' # replace_all_colons cs
      else a # replace_all_colons (b # cs))"
| "replace_all_colons cs = cs"

subsection \<open>The methods\<close>

definition Load_sdf :: "sdf_element \<Rightarrow> int \<Rightarrow> ImuSensor \<Rightarrow> ImuSensor" where
  "Load_sdf d fresh s =
     (let s0 = Sensor_Load_sdf d s;
          default_topic =
            replace_all_colons (''~/'' @ parentName s0 @ ''/'' @ GetName s0 @ ''/imu'');
          s1 = (case imu (sdf s0) of
                  None \<Rightarrow> s0\<lparr>pub := Some default_topic\<rparr>
                | Some e \<Rightarrow>
                    (case topic e of
                       None \<Rightarrow> s0\<lparr>pub := Some default_topic\<rparr>
                     | Some t \<Rightarrow>
                         if t \<noteq> ''__default_topic__'' then s0\<lparr>pub := Some t\<rparr>
                         else s0\<lparr>pub := Some default_topic\<rparr>));
          s2 = s1\<lparr>requestPub := Some ''~/request''\<rparr>;
          s3 = s2\<lparr>responseSub := Some (''~/response'', CbOnResponse)\<rparr>;
          s4 = s3\<lparr>requestMsg := Some (CreateRequest ''link_publish'' fresh)\<rparr>
      in s4\<lparr>sent := sent s4 @ [(''~/request'', Request_wire (CreateRequest ''link_publish'' fresh))]\<rparr>)"

definition Load :: "World \<Rightarrow> ImuSensor \<Rightarrow> imu_error + ImuSensor" where
  "Load w s =
     (let s1 = s\<lparr>parentEntity := dynamic_cast_Link (GetEntity w (parentName s))\<rparr>
      in case parentEntity s1 of
           None \<Rightarrow> Inl (GzThrow (''IMU has invalid paret['' @ parentName s1 @ '']. Must be a link'' @ [CHR 0x0A]))
         | Some p \<Rightarrow>
             (let s2 = s1\<lparr>referencePose := Pose_plus (pose s1) (GetWorldPose (link_at w p))\<rparr>
              in Inr (s2\<lparr>lastLinearVel :=
                           RotateVector (rot (referencePose s2)) (GetWorldLinearVel (link_at w p))\<rparr>)))"

definition OnResponse :: "World \<Rightarrow> Response_msg \<Rightarrow> ImuSensor \<Rightarrow> imu_error + ImuSensor" where
  "OnResponse w msg s =
     (case requestMsg s of
        None \<Rightarrow> Inr s
      | Some r \<Rightarrow>
          if response_id msg \<noteq> request_id r then Inr s
          else (case parentEntity s of
                  None \<Rightarrow> Inl NullParentEntity
                | Some p \<Rightarrow>
                    (let t = ''~/'' @ GetScopedName (link_at w p);
                         s1 = s\<lparr>responseSub := Some (t, CbOnLinkData)\<rparr>
                     in Inr (s1\<lparr>requestMsg := None\<rparr>))))"

definition OnLinkData :: "LinkData \<Rightarrow> ImuSensor \<Rightarrow> ImuSensor" where
  "OnLinkData msg s =
     (if IsActive s then
        (let s1 = s\<lparr>incomingLinkData := incomingLinkData s @ [msg]\<rparr>
         in if length (incomingLinkData s1) > 100
            then s1\<lparr>incomingLinkData := tl (incomingLinkData s1)\<rparr>
            else s1)
      else s)"

definition GetAngularVelocity :: "ImuSensor \<Rightarrow> Vector3" where
  "GetAngularVelocity s = Convert_Vector3d (angular_velocity (imuMsg s))"

definition GetLinearAcceleration :: "ImuSensor \<Rightarrow> Vector3" where
  "GetLinearAcceleration s = Convert_Vector3d (linear_acceleration (imuMsg s))"

definition GetOrientation :: "ImuSensor \<Rightarrow> Quaternion" where
  "GetOrientation s = Convert_Quaternion (orientation (imuMsg s))"

definition SetReferencePose :: "World \<Rightarrow> ImuSensor \<Rightarrow> imu_error + ImuSensor" where
  "SetReferencePose w s =
     (case parentEntity s of
        None \<Rightarrow> Inl NullParentEntity
      | Some p \<Rightarrow> Inr (s\<lparr>referencePose := Pose_plus (pose s) (GetWorldPose (link_at w p))\<rparr>))"

text \<open>
  \<^verbatim>\<open>UpdateImpl\<close>, in the order of its statements: the header of the message (entity name
  and stamp), the attitude (orientation and angular velocity), the differentiation under
  \<^verbatim>\<open>dt > 0.0\<close>, the contribution of gravity, and the publication guarded by
  \<^verbatim>\<open>this->pub\<close>. \<open>imuPose\<close> is the local \<^verbatim>\<open>imuPose\<close> of the method;
  \<open>UpdateImpl_at\<close> is the body of the method once \<^verbatim>\<open>parentEntity\<close> has been
  dereferenced.
\<close>

definition set_header :: "Time \<Rightarrow> ImuSensor \<Rightarrow> ImuSensor" where
  "set_header timestamp s =
     (let s1 = s\<lparr>imuMsg := (imuMsg s)\<lparr>entity_name := parentName s\<rparr>\<rparr>
      in s1\<lparr>imuMsg := (imuMsg s1)\<lparr>stamp := timestamp\<rparr>\<rparr>)"

definition imuPose :: "link_state \<Rightarrow> ImuSensor \<Rightarrow> Pose" where
  "imuPose l s = Pose_plus (pose s) (GetWorldPose l)"

definition set_attitude :: "link_state \<Rightarrow> Pose \<Rightarrow> ImuSensor \<Rightarrow> ImuSensor" where
  "set_attitude l ip s =
     (let s1 = s\<lparr>imuMsg := (imuMsg s)\<lparr>orientation :=
                  Set_Quaternion (Quaternion_mult (rot ip) (GetInverse (rot (referencePose s))))\<rparr>\<rparr>
      in s1\<lparr>imuMsg := (imuMsg s1)\<lparr>angular_velocity :=
                  Set_Vector3d (RotateVector (GetInverse (rot ip)) (GetWorldAngularVel l))\<rparr>\<rparr>)"

definition differentiate :: "Pose \<Rightarrow> Vector3 \<Rightarrow> Time \<Rightarrow> real \<Rightarrow> ImuSensor \<Rightarrow> ImuSensor" where
  "differentiate ip imuWorldLinearVel timestamp dt s =
     s\<lparr>linearAcc := RotateVector (GetInverse (rot ip))
                      (Vector3_div (Vector3_minus imuWorldLinearVel (lastLinearVel s)) dt),
       lastLinearVel := imuWorldLinearVel,
       lastMeasurementTime := timestamp\<rparr>"

definition add_gravity :: "World \<Rightarrow> Pose \<Rightarrow> ImuSensor \<Rightarrow> ImuSensor" where
  "add_gravity w ip s =
     (let s1 = s\<lparr>gravity := GetGravity w\<rparr>;
          s2 = s1\<lparr>linearAcc := Vector3_minus (linearAcc s1)
                                  (RotateVector (GetInverse (rot ip)) (gravity s1))\<rparr>
      in s2\<lparr>imuMsg := (imuMsg s2)\<lparr>linear_acceleration := Set_Vector3d (linearAcc s2)\<rparr>\<rparr>)"

definition Publish_imuMsg :: "ImuSensor \<Rightarrow> ImuSensor" where
  "Publish_imuMsg s =
     (case pub s of
        None \<Rightarrow> s
      | Some t \<Rightarrow> s\<lparr>sent := sent s @ [(t, IMU_wire (imuMsg s))]\<rparr>)"

definition UpdateImpl_at :: "World \<Rightarrow> link_state \<Rightarrow> ImuSensor \<Rightarrow> ImuSensor" where
  "UpdateImpl_at w l s =
     (let (timestamp, imuWorldLinearVel) = GetWorldLinearVelAt l (pos (pose s));
          dt = timestamp - lastMeasurementTime s;
          s1 = set_header timestamp s;
          ip = imuPose l s1;
          s2 = set_attitude l ip s1;
          s3 = (if dt > 0 then differentiate ip imuWorldLinearVel timestamp dt s2 else s2);
          s4 = add_gravity w ip s3
      in Publish_imuMsg s4)"

definition UpdateImpl :: "World \<Rightarrow> ImuSensor \<Rightarrow> imu_error + ImuSensor" where
  "UpdateImpl w s =
     (case parentEntity s of
        None \<Rightarrow> Inl NullParentEntity
      | Some p \<Rightarrow> Inr (UpdateImpl_at w (link_at w p) s))"

text \<open>
  What a tick reads from the link: the stamp and the velocity that
  \<^verbatim>\<open>GetWorldLinearVel(timestamp, this->pose.pos)\<close> delivers, and the time delta \<^verbatim>\<open>dt\<close>.
\<close>

definition tick_time :: "link_state \<Rightarrow> ImuSensor \<Rightarrow> Time" where
  "tick_time l s = fst (GetWorldLinearVelAt l (pos (pose s)))"

definition tick_velocity :: "link_state \<Rightarrow> ImuSensor \<Rightarrow> Vector3" where
  "tick_velocity l s = snd (GetWorldLinearVelAt l (pos (pose s)))"

definition tick_dt :: "link_state \<Rightarrow> ImuSensor \<Rightarrow> real" where
  "tick_dt l s = tick_time l s - lastMeasurementTime s"

subsection \<open>Sequences of calls\<close>

text \<open>
  The producer side: samples delivered to \<^verbatim>\<open>OnLinkData\<close>, with the owner switching the
  sensor on and off in between. \<open>accepted\<close> lists the samples that were delivered while
  the sensor was active, in the order of delivery; \<open>most_recent n\<close> keeps the last \<open>n\<close>
  elements of a list.
\<close>

datatype buffer_event = Push LinkData | Activate bool

fun deliver :: "buffer_event \<Rightarrow> ImuSensor \<Rightarrow> ImuSensor" where
  "deliver (Push m) s = OnLinkData m s"
| "deliver (Activate b) s = SetActive b s"

fun deliver_all :: "buffer_event list \<Rightarrow> ImuSensor \<Rightarrow> ImuSensor" where
  "deliver_all [] s = s"
| "deliver_all (e # es) s = deliver_all es (deliver e s)"

fun accepted :: "bool \<Rightarrow> buffer_event list \<Rightarrow> LinkData list" where
  "accepted a [] = []"
| "accepted a (Push m # es) = (if a then m # accepted a es else accepted a es)"
| "accepted a (Activate b # es) = accepted b es"

definition most_recent :: "nat \<Rightarrow> 'a list \<Rightarrow> 'a list" where
  "most_recent n xs = drop (length xs - n) xs"

text \<open>
  The life of a loaded sensor: any interleaving of discovery responses, delivered samples,
  update ticks, re-zeroing of the reference pose and activation changes. A run stops at the
  first error.
\<close>

datatype event =
    Response_ev World Response_msg
  | LinkData_ev LinkData
  | Update_ev World
  | SetReferencePose_ev World
  | SetActive_ev bool

fun step :: "event \<Rightarrow> ImuSensor \<Rightarrow> imu_error + ImuSensor" where
  "step (Response_ev w m) s = OnResponse w m s"
| "step (LinkData_ev m) s = Inr (OnLinkData m s)"
| "step (Update_ev w) s = UpdateImpl w s"
| "step (SetReferencePose_ev w) s = SetReferencePose w s"
| "step (SetActive_ev b) s = Inr (SetActive b s)"

fun run :: "event list \<Rightarrow> ImuSensor \<Rightarrow> imu_error + ImuSensor" where
  "run [] s = Inr s"
| "run (e # es) s = (case step e s of Inl x \<Rightarrow> Inl x | Inr s' \<Rightarrow> run es s')"

fun is_update :: "event \<Rightarrow> bool" where
  "is_update (Update_ev w) = True"
| "is_update _ = False"

fun is_IMU :: "string \<times> wire_msg \<Rightarrow> bool" where
  "is_IMU (t, IMU_wire m) = True"
| "is_IMU _ = False"

definition updates :: "event list \<Rightarrow> nat" where
  "updates es = length (filter is_update es)"

definition published_readings :: "ImuSensor \<Rightarrow> nat" where
  "published_readings s = length (filter is_IMU (sent s))"

text \<open>
  The reading the spec's assembly step would compute from a buffered sample: the sensor's
  pose composed onto the sample's pose, and the sample's angular velocity rotated into the
  body frame. It is compared with what \<^verbatim>\<open>UpdateImpl\<close> reports.
\<close>

definition spec_angular_velocity_of_sample :: "ImuSensor \<Rightarrow> LinkData \<Rightarrow> Vector3" where
  "spec_angular_velocity_of_sample s m =
     RotateVector (GetInverse (rot (Pose_plus (pose s) (sample_pose m))))
       (sample_angular_velocity m)"

subsection \<open>Fixtures\<close>

text \<open>
  A blank object (vectors and time zero, poses the identity, names empty, nothing
  advertised, subscribed or sent), a
  loaded sensor on the link \<open>model::link\<close>, and two worlds: one whose link rests at the
  origin under gravity \<open>(0, 0, -9.8)\<close>, one without gravity whose link is turned by half
  a turn about the vertical axis and moves at \<open>(1, 0, 0)\<close>. Both links stamp their
  velocity with time 1. The constructor of \<^verbatim>\<open>ImuSensor\<close> initialises no member itself:
  the blank object takes the raw pointer \<^verbatim>\<open>requestMsg\<close>, which the constructor leaves
  indeterminate, to be null, and the message to be unset, so that its orientation reads
  \<open>(0, 0, 0, 0)\<close>.
\<close>

definition Pose_identity :: Pose where
  "Pose_identity = \<lparr>pos = Vec 0 0 0, rot = Quaternion_identity\<rparr>"

definition ImuSensor_ctor :: ImuSensor where
  "ImuSensor_ctor =
     \<lparr>sdf = \<lparr>imu = None\<rparr>, parentName = [], sensorName = [], pose = Pose_identity,
      active = False, parentEntity = None, referencePose = Pose_identity,
      lastLinearVel = Vec 0 0 0, lastMeasurementTime = 0, linearAcc = Vec 0 0 0,
      gravity = Vec 0 0 0,
      imuMsg = \<lparr>entity_name = [], stamp = 0,
                orientation = Set_Quaternion (Quat 0 0 0 0),
                angular_velocity = Set_Vector3d (Vec 0 0 0),
                linear_acceleration = Set_Vector3d (Vec 0 0 0)\<rparr>,
      pub = None, requestPub = None, responseSub = None, requestMsg = None,
      incomingLinkData = [], sent = []\<rparr>"

definition sensor_on_link :: ImuSensor where
  "sensor_on_link =
     ImuSensor_ctor\<lparr>parentName := ''model::link'', sensorName := ''imu'', active := True,
                    parentEntity := Some 0, pub := Some ''~/model/link/imu/imu''\<rparr>"

definition link_at_rest :: link_state where
  "link_at_rest =
     \<lparr>GetScopedName = ''model::link'', GetWorldPose = Pose_identity,
      GetWorldLinearVel = Vec 0 0 0, GetWorldLinearVelAt = (\<lambda>offset. (1, Vec 0 0 0)),
      GetWorldAngularVel = Vec 0 0 0\<rparr>"

definition world_at_rest :: World where
  "world_at_rest =
     \<lparr>GetEntity = (\<lambda>n. if n = ''model::link'' then Some (LinkEntity 0)
                        else if n = ''model'' then Some OtherEntity else None),
      link_at = (\<lambda>p. link_at_rest), GetGravity = Vec 0 0 (- 9.8)\<rparr>"

definition link_turned_moving :: link_state where
  "link_turned_moving =
     \<lparr>GetScopedName = ''model::link'',
      GetWorldPose = \<lparr>pos = Vec 0 0 0, rot = Quat 0 0 0 1\<rparr>,
      GetWorldLinearVel = Vec 1 0 0, GetWorldLinearVelAt = (\<lambda>offset. (1, Vec 1 0 0)),
      GetWorldAngularVel = Vec 0 0 0\<rparr>"

definition world_turned_moving :: World where
  "world_turned_moving =
     \<lparr>GetEntity = (\<lambda>n. if n = ''model::link'' then Some (LinkEntity 0) else None),
      link_at = (\<lambda>p. link_turned_moving), GetGravity = Vec 0 0 0\<rparr>"

definition sample_spinning :: LinkData where
  "sample_spinning =
     \<lparr>sample_time = 1, sample_pose = Pose_identity,
      sample_linear_velocity = Vec 0 0 0, sample_angular_velocity = Vec 1 0 0\<rparr>"

definition sensor_after_first_tick :: ImuSensor where
  "sensor_after_first_tick = UpdateImpl_at world_at_rest link_at_rest sensor_on_link"

definition sensor_with_sample :: ImuSensor where
  "sensor_with_sample = sensor_on_link\<lparr>incomingLinkData := [sample_spinning]\<rparr>"

definition sensor_before_load :: ImuSensor where
  "sensor_before_load = ImuSensor_ctor\<lparr>parentName := ''model::link'', sensorName := ''imu''\<rparr>"

definition sensor_loaded_turned :: ImuSensor where
  "sensor_loaded_turned =
     sensor_before_load\<lparr>parentEntity := Some 0,
                         referencePose := \<lparr>pos = Vec 0 0 0, rot = Quat 0 0 0 1\<rparr>,
                         lastLinearVel := Vec (- 1) 0 0\<rparr>"

definition sensor_awaiting :: ImuSensor where
  "sensor_awaiting = Load_sdf \<lparr>imu = None\<rparr> 7 sensor_on_link"

definition sensor_subscribed :: ImuSensor where
  "sensor_subscribed =
     sensor_awaiting\<lparr>responseSub := Some (''~/model::link'', CbOnLinkData), requestMsg := None\<rparr>"

section \<open>Properties\<close>

subsection \<open>The sample buffer\<close>

lemma most_recent_append:
  "most_recent n (most_recent n xs @ ys) = most_recent n (xs @ ys)"
  by (cases "length xs \<le> n") (simp_all add: most_recent_def add.commute)

lemma most_recent_short: "length xs \<le> n \<Longrightarrow> most_recent n xs = xs"
  by (simp add: most_recent_def)

lemma length_most_recent: "length (most_recent n xs) \<le> n"
  by (simp add: most_recent_def)

lemma OnLinkData_buffer:
  assumes len: "length (incomingLinkData s) \<le> 100"
  shows "incomingLinkData (OnLinkData m s) =
           (if active s then most_recent 100 (incomingLinkData s @ [m])
            else incomingLinkData s)"
proof -
  have tl_drop: "tl xs = drop (Suc 0) xs" for xs :: "LinkData list"
    by (simp add: drop_Suc)
  show ?thesis
  proof (cases "length (incomingLinkData s) = 100")
    case True
    then show ?thesis
      by (simp add: OnLinkData_def IsActive_def most_recent_def Let_def tl_drop)
  next
    case False
    with len have "length (incomingLinkData s) < 100" by simp
    then show ?thesis
      by (simp add: OnLinkData_def IsActive_def most_recent_def Let_def)
  qed
qed

lemma OnLinkData_active: "active (OnLinkData m s) = active s"
  by (simp add: OnLinkData_def Let_def)

lemma deliver_all_buffer:
  "length (incomingLinkData s) \<le> 100 \<Longrightarrow>
   incomingLinkData (deliver_all es s) =
     most_recent 100 (incomingLinkData s @ accepted (active s) es)"
proof (induction es arbitrary: s)
  case Nil
  then show ?case by (simp add: most_recent_short)
next
  case (Cons e es)
  show ?case
  proof (cases e)
    case (Push m)
    have len: "length (incomingLinkData (OnLinkData m s)) \<le> 100"
      using Cons.prems by (simp add: OnLinkData_buffer length_most_recent)
    show ?thesis
      using Cons.IH [OF len] Cons.prems Push
      by (simp add: OnLinkData_buffer OnLinkData_active most_recent_append)
  next
    case (Activate b)
    have len: "length (incomingLinkData (SetActive b s)) \<le> 100"
      using Cons.prems by (simp add: SetActive_def)
    show ?thesis
      using Cons.IH [OF len] Activate by (simp add: SetActive_def)
  qed
qed

text \<open>
  C4. A buffer of at most 100 samples stays so under every sequence of deliveries and
  activation changes. A delivery to an inactive sensor leaves the buffer as it is; a
  delivery to an active sensor appends the sample and, when the buffer was full, drops
  its oldest sample. After the whole sequence the buffer holds, in order of delivery, the
  last 100 of the samples it held before followed by those delivered while active.
\<close>

theorem buffer_keeps_most_recent_100:
  assumes "length (incomingLinkData s) \<le> 100"
  shows "incomingLinkData (OnLinkData m s) =
           (if \<not> IsActive s then incomingLinkData s
            else if length (incomingLinkData s) < 100 then incomingLinkData s @ [m]
            else tl (incomingLinkData s) @ [m])
         \<and> length (incomingLinkData (deliver_all es s)) \<le> 100
         \<and> incomingLinkData (deliver_all es s) =
             most_recent 100 (incomingLinkData s @ accepted (active s) es)"
proof -
  have one: "incomingLinkData (OnLinkData m s) =
           (if \<not> IsActive s then incomingLinkData s
            else if length (incomingLinkData s) < 100 then incomingLinkData s @ [m]
            else tl (incomingLinkData s) @ [m])"
  proof (cases "incomingLinkData s")
    case Nil
    then show ?thesis by (simp add: OnLinkData_def Let_def)
  next
    case (Cons x xs)
    with assms show ?thesis by (auto simp: OnLinkData_def Let_def)
  qed
  have all: "incomingLinkData (deliver_all es s) =
             most_recent 100 (incomingLinkData s @ accepted (active s) es)"
    using assms by (rule deliver_all_buffer)
  have "length (incomingLinkData (deliver_all es s)) \<le> 100"
    unfolding all by (rule length_most_recent)
  with one all show ?thesis by simp
qed

theorem buffer_keeps_most_recent_100_witness:
  "length (incomingLinkData (ImuSensor_ctor\<lparr>active := True\<rparr>)) \<le> 100
   \<and> incomingLinkData (OnLinkData sample_spinning (ImuSensor_ctor\<lparr>active := True\<rparr>))
       = [sample_spinning]
   \<and> incomingLinkData
        (deliver_all [Push sample_spinning, Activate False, Push sample_spinning,
                      Activate True, Push (sample_spinning\<lparr>sample_time := 2\<rparr>)]
           (ImuSensor_ctor\<lparr>active := True\<rparr>))
       = [sample_spinning, sample_spinning\<lparr>sample_time := 2\<rparr>]"
proof -
  have h: "length (incomingLinkData (ImuSensor_ctor\<lparr>active := True\<rparr>)) \<le> 100"
    by (simp add: ImuSensor_ctor_def)
  show ?thesis
    using h
      buffer_keeps_most_recent_100 [OF h, of sample_spinning
        "[Push sample_spinning, Activate False, Push sample_spinning,
          Activate True, Push (sample_spinning\<lparr>sample_time := 2\<rparr>)]"]
    by (simp add: ImuSensor_ctor_def IsActive_def most_recent_def)
qed

subsection \<open>The update tick, field by field\<close>

lemmas tick_defs = tick_time_def tick_velocity_def tick_dt_def

lemma set_header_fields:
  "imuMsg (set_header t s) = (imuMsg s)\<lparr>entity_name := parentName s, stamp := t\<rparr>"
  "sdf (set_header t s) = sdf s"
  "parentName (set_header t s) = parentName s"
  "sensorName (set_header t s) = sensorName s"
  "pose (set_header t s) = pose s"
  "active (set_header t s) = active s"
  "parentEntity (set_header t s) = parentEntity s"
  "referencePose (set_header t s) = referencePose s"
  "lastLinearVel (set_header t s) = lastLinearVel s"
  "lastMeasurementTime (set_header t s) = lastMeasurementTime s"
  "linearAcc (set_header t s) = linearAcc s"
  "gravity (set_header t s) = gravity s"
  "pub (set_header t s) = pub s"
  "requestPub (set_header t s) = requestPub s"
  "responseSub (set_header t s) = responseSub s"
  "requestMsg (set_header t s) = requestMsg s"
  "incomingLinkData (set_header t s) = incomingLinkData s"
  "sent (set_header t s) = sent s"
  by (simp_all add: set_header_def Let_def)

lemma set_attitude_fields:
  "imuMsg (set_attitude l ip s) =
     (imuMsg s)\<lparr>orientation :=
                   Set_Quaternion (Quaternion_mult (rot ip) (GetInverse (rot (referencePose s)))),
                angular_velocity :=
                   Set_Vector3d (RotateVector (GetInverse (rot ip)) (GetWorldAngularVel l))\<rparr>"
  "sdf (set_attitude l ip s) = sdf s"
  "parentName (set_attitude l ip s) = parentName s"
  "sensorName (set_attitude l ip s) = sensorName s"
  "pose (set_attitude l ip s) = pose s"
  "active (set_attitude l ip s) = active s"
  "parentEntity (set_attitude l ip s) = parentEntity s"
  "referencePose (set_attitude l ip s) = referencePose s"
  "lastLinearVel (set_attitude l ip s) = lastLinearVel s"
  "lastMeasurementTime (set_attitude l ip s) = lastMeasurementTime s"
  "linearAcc (set_attitude l ip s) = linearAcc s"
  "gravity (set_attitude l ip s) = gravity s"
  "pub (set_attitude l ip s) = pub s"
  "requestPub (set_attitude l ip s) = requestPub s"
  "responseSub (set_attitude l ip s) = responseSub s"
  "requestMsg (set_attitude l ip s) = requestMsg s"
  "incomingLinkData (set_attitude l ip s) = incomingLinkData s"
  "sent (set_attitude l ip s) = sent s"
  by (simp_all add: set_attitude_def Let_def)

lemma differentiate_fields:
  "linearAcc (differentiate ip v t d s) =
     RotateVector (GetInverse (rot ip)) (Vector3_div (Vector3_minus v (lastLinearVel s)) d)"
  "lastLinearVel (differentiate ip v t d s) = v"
  "lastMeasurementTime (differentiate ip v t d s) = t"
  "imuMsg (differentiate ip v t d s) = imuMsg s"
  "sdf (differentiate ip v t d s) = sdf s"
  "parentName (differentiate ip v t d s) = parentName s"
  "sensorName (differentiate ip v t d s) = sensorName s"
  "pose (differentiate ip v t d s) = pose s"
  "active (differentiate ip v t d s) = active s"
  "parentEntity (differentiate ip v t d s) = parentEntity s"
  "referencePose (differentiate ip v t d s) = referencePose s"
  "gravity (differentiate ip v t d s) = gravity s"
  "pub (differentiate ip v t d s) = pub s"
  "requestPub (differentiate ip v t d s) = requestPub s"
  "responseSub (differentiate ip v t d s) = responseSub s"
  "requestMsg (differentiate ip v t d s) = requestMsg s"
  "incomingLinkData (differentiate ip v t d s) = incomingLinkData s"
  "sent (differentiate ip v t d s) = sent s"
  by (simp_all add: differentiate_def)

lemma add_gravity_fields:
  "linearAcc (add_gravity w ip s) =
     Vector3_minus (linearAcc s) (RotateVector (GetInverse (rot ip)) (GetGravity w))"
  "imuMsg (add_gravity w ip s) =
     (imuMsg s)\<lparr>linear_acceleration :=
        Set_Vector3d (Vector3_minus (linearAcc s) (RotateVector (GetInverse (rot ip)) (GetGravity w)))\<rparr>"
  "gravity (add_gravity w ip s) = GetGravity w"
  "lastLinearVel (add_gravity w ip s) = lastLinearVel s"
  "lastMeasurementTime (add_gravity w ip s) = lastMeasurementTime s"
  "sdf (add_gravity w ip s) = sdf s"
  "parentName (add_gravity w ip s) = parentName s"
  "sensorName (add_gravity w ip s) = sensorName s"
  "pose (add_gravity w ip s) = pose s"
  "active (add_gravity w ip s) = active s"
  "parentEntity (add_gravity w ip s) = parentEntity s"
  "referencePose (add_gravity w ip s) = referencePose s"
  "pub (add_gravity w ip s) = pub s"
  "requestPub (add_gravity w ip s) = requestPub s"
  "responseSub (add_gravity w ip s) = responseSub s"
  "requestMsg (add_gravity w ip s) = requestMsg s"
  "incomingLinkData (add_gravity w ip s) = incomingLinkData s"
  "sent (add_gravity w ip s) = sent s"
  by (simp_all add: add_gravity_def Let_def)

lemma Publish_imuMsg_fields:
  "sent (Publish_imuMsg s) =
     (case pub s of None \<Rightarrow> sent s | Some t \<Rightarrow> sent s @ [(t, IMU_wire (imuMsg s))])"
  "imuMsg (Publish_imuMsg s) = imuMsg s"
  "linearAcc (Publish_imuMsg s) = linearAcc s"
  "gravity (Publish_imuMsg s) = gravity s"
  "lastLinearVel (Publish_imuMsg s) = lastLinearVel s"
  "lastMeasurementTime (Publish_imuMsg s) = lastMeasurementTime s"
  "sdf (Publish_imuMsg s) = sdf s"
  "parentName (Publish_imuMsg s) = parentName s"
  "sensorName (Publish_imuMsg s) = sensorName s"
  "pose (Publish_imuMsg s) = pose s"
  "active (Publish_imuMsg s) = active s"
  "parentEntity (Publish_imuMsg s) = parentEntity s"
  "referencePose (Publish_imuMsg s) = referencePose s"
  "pub (Publish_imuMsg s) = pub s"
  "requestPub (Publish_imuMsg s) = requestPub s"
  "responseSub (Publish_imuMsg s) = responseSub s"
  "requestMsg (Publish_imuMsg s) = requestMsg s"
  "incomingLinkData (Publish_imuMsg s) = incomingLinkData s"
  by (simp_all add: Publish_imuMsg_def split: option.split)

lemmas block_fields =
  set_header_fields set_attitude_fields differentiate_fields add_gravity_fields
  Publish_imuMsg_fields

lemma imuPose_set_header: "imuPose l (set_header t s) = imuPose l s"
  by (simp add: imuPose_def set_header_fields)

lemma UpdateImpl_at_unfold:
  "UpdateImpl_at w l s =
     Publish_imuMsg
       (add_gravity w (imuPose l s)
          (if tick_dt l s > 0
           then differentiate (imuPose l s) (tick_velocity l s) (tick_time l s) (tick_dt l s)
                  (set_attitude l (imuPose l s) (set_header (tick_time l s) s))
           else set_attitude l (imuPose l s) (set_header (tick_time l s) s)))"
  by (simp add: UpdateImpl_at_def tick_defs Let_def imuPose_set_header split: prod.split)

lemma UpdateImpl_at_frame:
  "sdf (UpdateImpl_at w l s) = sdf s"
  "parentName (UpdateImpl_at w l s) = parentName s"
  "sensorName (UpdateImpl_at w l s) = sensorName s"
  "pose (UpdateImpl_at w l s) = pose s"
  "active (UpdateImpl_at w l s) = active s"
  "parentEntity (UpdateImpl_at w l s) = parentEntity s"
  "referencePose (UpdateImpl_at w l s) = referencePose s"
  "pub (UpdateImpl_at w l s) = pub s"
  "requestPub (UpdateImpl_at w l s) = requestPub s"
  "responseSub (UpdateImpl_at w l s) = responseSub s"
  "requestMsg (UpdateImpl_at w l s) = requestMsg s"
  "incomingLinkData (UpdateImpl_at w l s) = incomingLinkData s"
  by (simp_all add: UpdateImpl_at_unfold block_fields)

lemma UpdateImpl_at_gravity: "gravity (UpdateImpl_at w l s) = GetGravity w"
  by (simp add: UpdateImpl_at_unfold block_fields)

lemma UpdateImpl_at_lastLinearVel:
  "lastLinearVel (UpdateImpl_at w l s) =
     (if tick_dt l s > 0 then tick_velocity l s else lastLinearVel s)"
  by (simp add: UpdateImpl_at_unfold block_fields)

lemma UpdateImpl_at_lastMeasurementTime:
  "lastMeasurementTime (UpdateImpl_at w l s) =
     (if tick_dt l s > 0 then tick_time l s else lastMeasurementTime s)"
  by (simp add: UpdateImpl_at_unfold block_fields)

lemma UpdateImpl_at_linearAcc:
  "linearAcc (UpdateImpl_at w l s) =
     Vector3_minus
       (if tick_dt l s > 0
        then RotateVector (GetInverse (rot (imuPose l s)))
               (Vector3_div (Vector3_minus (tick_velocity l s) (lastLinearVel s)) (tick_dt l s))
        else linearAcc s)
       (RotateVector (GetInverse (rot (imuPose l s))) (GetGravity w))"
  by (simp add: UpdateImpl_at_unfold block_fields)

lemma UpdateImpl_at_imuMsg:
  "imuMsg (UpdateImpl_at w l s) =
     \<lparr>entity_name = parentName s, stamp = tick_time l s,
      orientation = Set_Quaternion
        (Quaternion_mult (rot (imuPose l s)) (GetInverse (rot (referencePose s)))),
      angular_velocity = Set_Vector3d
        (RotateVector (GetInverse (rot (imuPose l s))) (GetWorldAngularVel l)),
      linear_acceleration = Set_Vector3d (linearAcc (UpdateImpl_at w l s))\<rparr>"
  unfolding UpdateImpl_at_linearAcc
  by (simp add: UpdateImpl_at_unfold block_fields)

lemma UpdateImpl_at_sent:
  "sent (UpdateImpl_at w l s) =
     (case pub s of
        None \<Rightarrow> sent s
      | Some t \<Rightarrow> sent s @ [(t, IMU_wire (imuMsg (UpdateImpl_at w l s)))])"
  unfolding UpdateImpl_at_imuMsg UpdateImpl_at_linearAcc
  by (simp add: UpdateImpl_at_unfold block_fields split: option.split)

lemma UpdateImpl_resolved:
  "parentEntity s = Some p \<Longrightarrow> UpdateImpl w s = Inr (UpdateImpl_at w (link_at w p) s)"
  by (simp add: UpdateImpl_def)

lemma Convert_Set_Vector3d: "Convert_Vector3d (Set_Vector3d v) = v"
  by (simp add: Convert_Vector3d_def Set_Vector3d_def Vec_def)

lemma Convert_Set_Quaternion: "Convert_Quaternion (Set_Quaternion q) = q"
  by (simp add: Convert_Quaternion_def Set_Quaternion_def Quat_def)

lemma GetLinearAcceleration_UpdateImpl_at:
  "GetLinearAcceleration (UpdateImpl_at w l s) = linearAcc (UpdateImpl_at w l s)"
  by (simp add: GetLinearAcceleration_def UpdateImpl_at_imuMsg Convert_Set_Vector3d)

lemma GetAngularVelocity_UpdateImpl_at:
  "GetAngularVelocity (UpdateImpl_at w l s) =
     RotateVector (GetInverse (rot (imuPose l s))) (GetWorldAngularVel l)"
  by (simp add: GetAngularVelocity_def UpdateImpl_at_imuMsg Convert_Set_Vector3d)

lemma GetOrientation_UpdateImpl_at:
  "GetOrientation (UpdateImpl_at w l s) =
     Quaternion_mult (rot (imuPose l s)) (GetInverse (rot (referencePose s)))"
  by (simp add: GetOrientation_def UpdateImpl_at_imuMsg Convert_Set_Quaternion)

subsection \<open>Evaluation on the fixtures\<close>

lemmas math_defs = Vec_def Quat_def Quaternion_identity_def Vector3_minus_def Vector3_plus_def
  Vector3_div_def Quaternion_mult_def GetInverse_def RotateVector_def Pose_plus_def
  Pose_identity_def

lemmas tick_fields = UpdateImpl_at_frame UpdateImpl_at_gravity UpdateImpl_at_lastLinearVel
  UpdateImpl_at_lastMeasurementTime UpdateImpl_at_linearAcc

lemma sensor_on_link_fields:
  "parentEntity sensor_on_link = Some 0"
  "pose sensor_on_link = Pose_identity"
  "referencePose sensor_on_link = Pose_identity"
  "lastLinearVel sensor_on_link = Vec 0 0 0"
  "lastMeasurementTime sensor_on_link = 0"
  "linearAcc sensor_on_link = Vec 0 0 0"
  "incomingLinkData sensor_on_link = []"
  "pub sensor_on_link = Some ''~/model/link/imu/imu''"
  by (simp_all add: sensor_on_link_def ImuSensor_ctor_def)

lemma link_at_rest_fields:
  "GetWorldPose link_at_rest = Pose_identity"
  "GetWorldLinearVel link_at_rest = Vec 0 0 0"
  "GetWorldLinearVelAt link_at_rest x = (1, Vec 0 0 0)"
  "GetWorldAngularVel link_at_rest = Vec 0 0 0"
  "link_at world_at_rest p = link_at_rest"
  "GetGravity world_at_rest = Vec 0 0 (- 9.8)"
  by (simp_all add: link_at_rest_def world_at_rest_def)

lemma first_tick_at_rest:
  "tick_dt link_at_rest sensor_on_link = 1"
  "linearAcc sensor_after_first_tick = Vec 0 0 9.8"
  "lastLinearVel sensor_after_first_tick = Vec 0 0 0"
  "lastMeasurementTime sensor_after_first_tick = 1"
  "pose sensor_after_first_tick = Pose_identity"
  "parentEntity sensor_after_first_tick = Some 0"
     apply (simp_all add: sensor_after_first_tick_def tick_fields tick_defs imuPose_def sensor_on_link_fields link_at_rest_fields)
   apply (simp_all add: math_defs)
  done

text \<open>
  C1. Two ticks of a sensor at rest under gravity \<open>(0, 0, -9.8)\<close>, both stamped with
  time 1. The first tick has \<open>dt = 1\<close> and reports \<open>(0, 0, 9.8)\<close>. The second has
  \<open>dt = 0\<close>: it leaves \<^verbatim>\<open>lastLinearVel\<close> and \<^verbatim>\<open>lastMeasurementTime\<close> as they were, but
  it subtracts the rotated gravity from the held acceleration once more and reports
  \<open>(0, 0, 19.6)\<close>.
\<close>

theorem idle_tick_subtracts_gravity_again:
  "UpdateImpl world_at_rest sensor_on_link = Inr sensor_after_first_tick
   \<and> GetLinearAcceleration sensor_after_first_tick = Vec 0 0 9.8
   \<and> tick_dt link_at_rest sensor_after_first_tick = 0
   \<and> UpdateImpl world_at_rest sensor_after_first_tick
       = Inr (UpdateImpl_at world_at_rest link_at_rest sensor_after_first_tick)
   \<and> lastLinearVel (UpdateImpl_at world_at_rest link_at_rest sensor_after_first_tick)
       = lastLinearVel sensor_after_first_tick
   \<and> lastMeasurementTime (UpdateImpl_at world_at_rest link_at_rest sensor_after_first_tick)
       = lastMeasurementTime sensor_after_first_tick
   \<and> GetLinearAcceleration (UpdateImpl_at world_at_rest link_at_rest sensor_after_first_tick)
       = Vec 0 0 19.6"
proof -
  have a: "UpdateImpl world_at_rest sensor_on_link = Inr sensor_after_first_tick"
    by (simp add: UpdateImpl_def sensor_on_link_fields link_at_rest_fields sensor_after_first_tick_def)
  have b: "GetLinearAcceleration sensor_after_first_tick = Vec 0 0 9.8"
    using first_tick_at_rest(2)
    by (simp add: sensor_after_first_tick_def GetLinearAcceleration_UpdateImpl_at)
  have c: "tick_dt link_at_rest sensor_after_first_tick = 0"
    by (simp add: tick_defs first_tick_at_rest link_at_rest_fields)
  have d: "UpdateImpl world_at_rest sensor_after_first_tick
       = Inr (UpdateImpl_at world_at_rest link_at_rest sensor_after_first_tick)"
    by (simp add: UpdateImpl_def first_tick_at_rest link_at_rest_fields)
  have e: "lastLinearVel (UpdateImpl_at world_at_rest link_at_rest sensor_after_first_tick)
       = lastLinearVel sensor_after_first_tick"
    by (simp add: UpdateImpl_at_lastLinearVel c)
  have f: "lastMeasurementTime (UpdateImpl_at world_at_rest link_at_rest sensor_after_first_tick)
       = lastMeasurementTime sensor_after_first_tick"
    by (simp add: UpdateImpl_at_lastMeasurementTime c)
  have "linearAcc (UpdateImpl_at world_at_rest link_at_rest sensor_after_first_tick) = Vec 0 0 19.6"
    by (simp add: UpdateImpl_at_linearAcc c first_tick_at_rest imuPose_def link_at_rest_fields)
       (simp add: math_defs)
  then have g: "GetLinearAcceleration (UpdateImpl_at world_at_rest link_at_rest sensor_after_first_tick)
       = Vec 0 0 19.6"
    by (simp add: GetLinearAcceleration_UpdateImpl_at)
  from a b c d e f g show ?thesis by simp
qed


lemma link_turned_moving_fields:
  "GetWorldPose link_turned_moving = \<lparr>pos = Vec 0 0 0, rot = Quat 0 0 0 1\<rparr>"
  "GetWorldLinearVel link_turned_moving = Vec 1 0 0"
  "GetWorldLinearVelAt link_turned_moving x = (1, Vec 1 0 0)"
  "GetWorldAngularVel link_turned_moving = Vec 0 0 0"
  "link_at world_turned_moving p = link_turned_moving"
  "GetGravity world_turned_moving = Vec 0 0 0"
  "GetEntity world_turned_moving ''model::link'' = Some (LinkEntity 0)"
  by (simp_all add: link_turned_moving_def world_turned_moving_def)

lemma sensor_loaded_turned_fields:
  "parentEntity sensor_loaded_turned = Some 0"
  "pose sensor_loaded_turned = Pose_identity"
  "referencePose sensor_loaded_turned = \<lparr>pos = Vec 0 0 0, rot = Quat 0 0 0 1\<rparr>"
  "lastLinearVel sensor_loaded_turned = Vec (- 1) 0 0"
  "lastMeasurementTime sensor_loaded_turned = 0"
  by (simp_all add: sensor_loaded_turned_def sensor_before_load_def ImuSensor_ctor_def)

lemma Load_turned_moving:
  "Load world_turned_moving sensor_before_load = Inr sensor_loaded_turned"
proof -
  have "Pose_plus Pose_identity \<lparr>pos = Vec 0 0 0, rot = Quat 0 0 0 1\<rparr>
          = \<lparr>pos = Vec 0 0 0, rot = Quat 0 0 0 1\<rparr>"
    by (simp add: math_defs)
  moreover have "RotateVector (Quat 0 0 0 1) (Vec 1 0 0) = Vec (- 1) 0 0"
    by (simp add: math_defs)
  ultimately show ?thesis
    by (simp add: Load_def Let_def sensor_loaded_turned_def sensor_before_load_def
        ImuSensor_ctor_def link_turned_moving_fields)
qed

text \<open>
  C2. A link turned by half a turn about the vertical axis that moves at the constant
  world velocity \<open>(1, 0, 0)\<close>. \<^verbatim>\<open>Load\<close> stores the velocity rotated by the reference
  orientation, \<open>(-1, 0, 0)\<close>, in \<^verbatim>\<open>lastLinearVel\<close>; the first tick, with \<open>dt = 1\<close>,
  differentiates the world velocity against it and reports the acceleration
  \<open>(-2, 0, 0)\<close> for a body that does not accelerate. Only after that tick does
  \<^verbatim>\<open>lastLinearVel\<close> hold the world velocity.
\<close>

theorem Load_stores_rotated_velocity:
  "Load world_turned_moving sensor_before_load = Inr sensor_loaded_turned
   \<and> GetWorldLinearVel link_turned_moving = Vec 1 0 0
   \<and> tick_velocity link_turned_moving sensor_loaded_turned = Vec 1 0 0
   \<and> lastLinearVel sensor_loaded_turned = Vec (- 1) 0 0
   \<and> UpdateImpl world_turned_moving sensor_loaded_turned
       = Inr (UpdateImpl_at world_turned_moving link_turned_moving sensor_loaded_turned)
   \<and> tick_dt link_turned_moving sensor_loaded_turned = 1
   \<and> GetLinearAcceleration (UpdateImpl_at world_turned_moving link_turned_moving sensor_loaded_turned)
       = Vec (- 2) 0 0
   \<and> lastLinearVel (UpdateImpl_at world_turned_moving link_turned_moving sensor_loaded_turned)
       = Vec 1 0 0"
proof -
  have dt: "tick_dt link_turned_moving sensor_loaded_turned = 1"
    by (simp add: tick_defs link_turned_moving_fields sensor_loaded_turned_fields)
  have v: "tick_velocity link_turned_moving sensor_loaded_turned = Vec 1 0 0"
    by (simp add: tick_defs link_turned_moving_fields)
  have u: "UpdateImpl world_turned_moving sensor_loaded_turned
       = Inr (UpdateImpl_at world_turned_moving link_turned_moving sensor_loaded_turned)"
    by (simp add: UpdateImpl_def sensor_loaded_turned_fields link_turned_moving_fields)
  have "linearAcc (UpdateImpl_at world_turned_moving link_turned_moving sensor_loaded_turned)
       = Vec (- 2) 0 0"
    by (simp add: UpdateImpl_at_linearAcc dt v imuPose_def sensor_loaded_turned_fields
        link_turned_moving_fields)
       (simp add: math_defs)
  then have acc: "GetLinearAcceleration
        (UpdateImpl_at world_turned_moving link_turned_moving sensor_loaded_turned) = Vec (- 2) 0 0"
    by (simp add: GetLinearAcceleration_UpdateImpl_at)
  have l: "lastLinearVel (UpdateImpl_at world_turned_moving link_turned_moving sensor_loaded_turned)
       = Vec 1 0 0"
    by (simp add: UpdateImpl_at_lastLinearVel dt v)
  from Load_turned_moving dt v u acc l show ?thesis
    by (simp add: link_turned_moving_fields sensor_loaded_turned_fields)
qed

subsection \<open>The tick and the sample buffer\<close>

lemma sensor_with_sample_fields:
  "parentEntity sensor_with_sample = Some 0"
  "pose sensor_with_sample = Pose_identity"
  "incomingLinkData sensor_with_sample = [sample_spinning]"
  by (simp_all add: sensor_with_sample_def sensor_on_link_def ImuSensor_ctor_def)

text \<open>
  C3, as stated, fails. The buffer holds one sample, spinning at \<open>(1, 0, 0)\<close>, from which
  the spec's assembly step would report the angular velocity \<open>(1, 0, 0)\<close>; the link
  itself is at rest. The tick leaves the sample in the buffer and reports \<open>(0, 0, 0)\<close>,
  the angular velocity it queried from the link.
\<close>

theorem update_ignores_buffered_sample:
  "incomingLinkData sensor_with_sample = [sample_spinning]
   \<and> UpdateImpl world_at_rest sensor_with_sample
       = Inr (UpdateImpl_at world_at_rest link_at_rest sensor_with_sample)
   \<and> incomingLinkData (UpdateImpl_at world_at_rest link_at_rest sensor_with_sample)
       = [sample_spinning]
   \<and> spec_angular_velocity_of_sample sensor_with_sample
        (last (incomingLinkData sensor_with_sample)) = Vec 1 0 0
   \<and> GetAngularVelocity (UpdateImpl_at world_at_rest link_at_rest sensor_with_sample)
       = Vec 0 0 0"
proof -
  have u: "UpdateImpl world_at_rest sensor_with_sample
       = Inr (UpdateImpl_at world_at_rest link_at_rest sensor_with_sample)"
    by (simp add: UpdateImpl_def sensor_with_sample_fields link_at_rest_fields)
  have b: "incomingLinkData (UpdateImpl_at world_at_rest link_at_rest sensor_with_sample)
       = [sample_spinning]"
    by (simp add: UpdateImpl_at_frame sensor_with_sample_fields)
  have sp: "spec_angular_velocity_of_sample sensor_with_sample
        (last (incomingLinkData sensor_with_sample)) = Vec 1 0 0"
    by (simp add: spec_angular_velocity_of_sample_def sensor_with_sample_fields
        sample_spinning_def)
       (simp add: math_defs)
  have g: "GetAngularVelocity (UpdateImpl_at world_at_rest link_at_rest sensor_with_sample)
       = Vec 0 0 0"
    by (simp add: GetAngularVelocity_UpdateImpl_at imuPose_def sensor_with_sample_fields
        link_at_rest_fields)
       (simp add: math_defs)
  from u b sp g show ?thesis by (simp add: sensor_with_sample_fields)
qed

lemma UpdateImpl_at_buffer_independent:
  "UpdateImpl_at w l (s\<lparr>incomingLinkData := b\<rparr>) = (UpdateImpl_at w l s)\<lparr>incomingLinkData := b\<rparr>"
proof -
  have h: "set_header t (s\<lparr>incomingLinkData := b\<rparr>) = (set_header t s)\<lparr>incomingLinkData := b\<rparr>"
    for t s by (simp add: set_header_def Let_def)
  have a: "set_attitude l ip (s\<lparr>incomingLinkData := b\<rparr>) = (set_attitude l ip s)\<lparr>incomingLinkData := b\<rparr>"
    for ip s by (simp add: set_attitude_def Let_def)
  have d: "differentiate ip v t dt (s\<lparr>incomingLinkData := b\<rparr>)
             = (differentiate ip v t dt s)\<lparr>incomingLinkData := b\<rparr>"
    for ip v t dt s by (simp add: differentiate_def)
  have g: "add_gravity w ip (s\<lparr>incomingLinkData := b\<rparr>) = (add_gravity w ip s)\<lparr>incomingLinkData := b\<rparr>"
    for ip s by (simp add: add_gravity_def Let_def)
  have p: "Publish_imuMsg (s\<lparr>incomingLinkData := b\<rparr>) = (Publish_imuMsg s)\<lparr>incomingLinkData := b\<rparr>"
    for s by (simp add: Publish_imuMsg_def split: option.split)
  have i: "imuPose l (s\<lparr>incomingLinkData := b\<rparr>) = imuPose l s"
    by (simp add: imuPose_def)
  have t: "tick_dt l (s\<lparr>incomingLinkData := b\<rparr>) = tick_dt l s"
    "tick_time l (s\<lparr>incomingLinkData := b\<rparr>) = tick_time l s"
    "tick_velocity l (s\<lparr>incomingLinkData := b\<rparr>) = tick_velocity l s"
    by (simp_all add: tick_defs)
  show ?thesis
    by (simp add: UpdateImpl_at_unfold h a d g p i t)
qed

text \<open>
  C3, amended. A tick of a sensor whose parent is resolved never reads the sample buffer:
  whatever the buffer holds, the tick returns it as it was, and everything else is what
  the tick computes with any other buffer. The reading comes from the link queried at the
  tick: the orientation relative to the reference, the angular velocity in the body
  frame, the acceleration (differentiated when \<open>dt > 0\<close>, held otherwise) less the
  rotated gravity, and then the publication on the sensor's topic when there is one.
\<close>

theorem update_reads_link_not_buffer:
  assumes "parentEntity s = Some p"
  shows "UpdateImpl w (s\<lparr>incomingLinkData := b\<rparr>)
           = Inr ((UpdateImpl_at w (link_at w p) s)\<lparr>incomingLinkData := b\<rparr>)
         \<and> GetOrientation (UpdateImpl_at w (link_at w p) s)
             = Quaternion_mult (rot (imuPose (link_at w p) s)) (GetInverse (rot (referencePose s)))
         \<and> GetAngularVelocity (UpdateImpl_at w (link_at w p) s)
             = RotateVector (GetInverse (rot (imuPose (link_at w p) s)))
                 (GetWorldAngularVel (link_at w p))
         \<and> GetLinearAcceleration (UpdateImpl_at w (link_at w p) s)
             = Vector3_minus
                 (if tick_dt (link_at w p) s > 0
                  then RotateVector (GetInverse (rot (imuPose (link_at w p) s)))
                         (Vector3_div
                            (Vector3_minus (tick_velocity (link_at w p) s) (lastLinearVel s))
                            (tick_dt (link_at w p) s))
                  else linearAcc s)
                 (RotateVector (GetInverse (rot (imuPose (link_at w p) s))) (GetGravity w))
         \<and> sent (UpdateImpl_at w (link_at w p) s)
             = (case pub s of
                  None \<Rightarrow> sent s
                | Some t \<Rightarrow> sent s @ [(t, IMU_wire (imuMsg (UpdateImpl_at w (link_at w p) s)))])"
  using assms
  by (simp add: UpdateImpl_def UpdateImpl_at_buffer_independent GetOrientation_UpdateImpl_at
      GetAngularVelocity_UpdateImpl_at GetLinearAcceleration_UpdateImpl_at
      UpdateImpl_at_linearAcc UpdateImpl_at_sent)

theorem update_reads_link_not_buffer_witness:
  "parentEntity sensor_on_link = Some 0
   \<and> UpdateImpl world_at_rest (sensor_on_link\<lparr>incomingLinkData := [sample_spinning]\<rparr>)
       = Inr ((UpdateImpl_at world_at_rest link_at_rest sensor_on_link)
                \<lparr>incomingLinkData := [sample_spinning]\<rparr>)"
  using update_reads_link_not_buffer [of sensor_on_link 0 world_at_rest "[sample_spinning]"]
  by (simp add: sensor_on_link_fields link_at_rest_fields)

subsection \<open>Gravity compensation\<close>

lemma RotateVector_identity: "RotateVector (GetInverse Quaternion_identity) v = v"
  by (simp add: math_defs)

lemma differentiated_tick_acceleration:
  assumes "tick_dt l s > 0"
  shows "GetLinearAcceleration (UpdateImpl_at w l s)
           = Vector3_minus
               (RotateVector (GetInverse (rot (imuPose l s)))
                  (Vector3_div (Vector3_minus (tick_velocity l s) (lastLinearVel s))
                     (tick_dt l s)))
               (RotateVector (GetInverse (rot (imuPose l s))) (GetGravity w))"
  using assms by (simp add: GetLinearAcceleration_UpdateImpl_at UpdateImpl_at_linearAcc)

lemma idle_tick_acceleration:
  assumes "tick_dt l s \<le> 0"
  shows "GetLinearAcceleration (UpdateImpl_at w l s)
           = Vector3_minus (linearAcc s)
               (RotateVector (GetInverse (rot (imuPose l s))) (GetGravity w))"
  using assms by (simp add: GetLinearAcceleration_UpdateImpl_at UpdateImpl_at_linearAcc)

text \<open>
  C5. A sensor at rest under gravity \<open>(0, 0, -9.8)\<close>: the link's linear and angular
  velocity are zero at this tick and the velocity kept from the tick before is zero, the
  sensor's orientation is the identity and equals the reference. The tick before, with
  \<open>dt = 1\<close>, reported \<open>(0, 0, 9.8)\<close>. This tick is stamped with the same time, so
  \<open>dt = 0\<close>: the differentiated acceleration of the body is still zero, but the tick
  subtracts the rotated gravity from the value it holds, which already has gravity in it,
  and reports \<open>(0, 0, 19.6)\<close> instead of \<open>(0, 0, 9.8)\<close>.
\<close>

theorem rest_idle_tick_reports_gravity_twice:
  "tick_velocity link_at_rest sensor_after_first_tick = Vec 0 0 0
   \<and> lastLinearVel sensor_after_first_tick = Vec 0 0 0
   \<and> GetWorldAngularVel link_at_rest = Vec 0 0 0
   \<and> rot (imuPose link_at_rest sensor_after_first_tick)
       = rot (referencePose sensor_after_first_tick)
   \<and> rot (imuPose link_at_rest sensor_after_first_tick) = Quaternion_identity
   \<and> GetGravity world_at_rest = Vec 0 0 (- 9.8)
   \<and> linearAcc sensor_after_first_tick = Vec 0 0 9.8
   \<and> tick_dt link_at_rest sensor_after_first_tick = 0
   \<and> UpdateImpl world_at_rest sensor_after_first_tick
       = Inr (UpdateImpl_at world_at_rest link_at_rest sensor_after_first_tick)
   \<and> GetLinearAcceleration (UpdateImpl_at world_at_rest link_at_rest sensor_after_first_tick)
       = Vec 0 0 19.6
   \<and> GetLinearAcceleration (UpdateImpl_at world_at_rest link_at_rest sensor_after_first_tick)
       \<noteq> Vec 0 0 9.8"
proof -
  let ?s = sensor_after_first_tick
  have v: "tick_velocity link_at_rest ?s = Vec 0 0 0"
    by (simp add: tick_defs link_at_rest_fields)
  have dt: "tick_dt link_at_rest ?s = 0"
    by (simp add: tick_defs first_tick_at_rest link_at_rest_fields)
  have r: "rot (imuPose link_at_rest ?s) = Quaternion_identity"
    by (simp add: imuPose_def first_tick_at_rest link_at_rest_fields)
       (simp add: math_defs)
  have r': "rot (referencePose ?s) = Quaternion_identity"
    by (simp add: sensor_after_first_tick_def UpdateImpl_at_frame sensor_on_link_fields
        Pose_identity_def)
  have u: "UpdateImpl world_at_rest ?s = Inr (UpdateImpl_at world_at_rest link_at_rest ?s)"
    by (simp add: UpdateImpl_def first_tick_at_rest link_at_rest_fields)
  have "GetLinearAcceleration (UpdateImpl_at world_at_rest link_at_rest ?s)
          = Vector3_minus (Vec 0 0 9.8) (Vec 0 0 (- 9.8))"
    using dt by (simp add: idle_tick_acceleration r RotateVector_identity first_tick_at_rest
        link_at_rest_fields)
  also have "\<dots> = Vec 0 0 19.6"
    by (simp add: Vec_def Vector3_minus_def)
  finally have acc: "GetLinearAcceleration (UpdateImpl_at world_at_rest link_at_rest ?s)
          = Vec 0 0 19.6" .
  have ne: "Vec 0 0 19.6 \<noteq> Vec 0 0 9.8"
    by (simp add: Vec_def)
  from v dt r r' u acc ne show ?thesis
    by (simp add: first_tick_at_rest link_at_rest_fields)
qed

subsection \<open>Orientation relative to the reference\<close>

lemma sum_squares_zero:
  fixes a b c d :: real
  shows "a * a + b * b + c * c + d * d = 0 \<longleftrightarrow> a = 0 \<and> b = 0 \<and> c = 0 \<and> d = 0"
proof
  assume h: "a * a + b * b + c * c + d * d = 0"
  have "0 \<le> a * a" "0 \<le> b * b" "0 \<le> c * c" "0 \<le> d * d" by simp_all
  with h have "a * a = 0" "b * b = 0" "c * c = 0" "d * d = 0" by linarith+
  then show "a = 0 \<and> b = 0 \<and> c = 0 \<and> d = 0" by simp
qed simp

lemma Quaternion_zero_iff:
  "q = Quat 0 0 0 0 \<longleftrightarrow> qw q * qw q + qx q * qx q + qy q * qy q + qz q * qz q = 0"
  by (cases q) (simp add: Quat_def sum_squares_zero)

lemma Quaternion_mult_GetInverse:
  assumes "q \<noteq> Quat 0 0 0 0"
  shows "Quaternion_mult q (GetInverse q) = Quaternion_identity"
proof -
  define n where "n = qw q * qw q + qx q * qx q + qy q * qy q + qz q * qz q"
  have n: "n \<noteq> 0" using assms by (simp add: Quaternion_zero_iff n_def)
  have inv: "GetInverse q = Quat (qw q / n) (- qx q / n) (- qy q / n) (- qz q / n)"
    using n by (simp add: GetInverse_def Let_def n_def)
  have w: "qw q * (qw q / n) - qx q * (- qx q / n) - qy q * (- qy q / n) - qz q * (- qz q / n) = 1"
  proof -
    have "qw q * (qw q / n) - qx q * (- qx q / n) - qy q * (- qy q / n) - qz q * (- qz q / n)
            = (qw q * qw q + qx q * qx q + qy q * qy q + qz q * qz q) / n"
      by (simp add: add_divide_distrib)
    also have "\<dots> = n / n"
      by (simp only: n_def)
    also have "\<dots> = 1"
      using n by simp
    finally show ?thesis .
  qed
  have x: "qw q * (- qx q / n) + qx q * (qw q / n) + qy q * (- qz q / n) - qz q * (- qy q / n) = 0"
    by (simp add: field_simps)
  have y: "qw q * (- qy q / n) - qx q * (- qz q / n) + qy q * (qw q / n) + qz q * (- qx q / n) = 0"
    by (simp add: field_simps)
  have z: "qw q * (- qz q / n) + qx q * (- qy q / n) - qy q * (- qx q / n) + qz q * (qw q / n) = 0"
    by (simp add: field_simps)
  show ?thesis
    unfolding inv Quaternion_mult_def Quaternion_identity_def Quat_def
    by (simp only: Quaternion.simps w x y z)
qed

text \<open>
  C6. After a tick the reported orientation is the current world orientation of the IMU
  (the rotation of the sensor's pose composed onto the parent's world pose) multiplied by
  the inverse of the reference orientation. When the two orientations are equal, and
  are not the zero quaternion, the reported orientation is the identity.
\<close>

theorem orientation_relative_to_reference:
  assumes "parentEntity s = Some p"
  shows "UpdateImpl w s = Inr (UpdateImpl_at w (link_at w p) s)
         \<and> GetOrientation (UpdateImpl_at w (link_at w p) s)
             = Quaternion_mult (rot (Pose_plus (pose s) (GetWorldPose (link_at w p))))
                 (GetInverse (rot (referencePose s)))
         \<and> (rot (Pose_plus (pose s) (GetWorldPose (link_at w p))) = rot (referencePose s)
              \<and> rot (referencePose s) \<noteq> Quat 0 0 0 0
            \<longrightarrow> GetOrientation (UpdateImpl_at w (link_at w p) s) = Quaternion_identity)"
  using assms
  by (simp add: UpdateImpl_def GetOrientation_UpdateImpl_at imuPose_def
      Quaternion_mult_GetInverse)

theorem orientation_relative_to_reference_witness:
  "parentEntity sensor_loaded_turned = Some 0
   \<and> rot (Pose_plus (pose sensor_loaded_turned) (GetWorldPose (link_at world_turned_moving 0)))
       = rot (referencePose sensor_loaded_turned)
   \<and> rot (referencePose sensor_loaded_turned) \<noteq> Quat 0 0 0 0
   \<and> UpdateImpl world_turned_moving sensor_loaded_turned
       = Inr (UpdateImpl_at world_turned_moving link_turned_moving sensor_loaded_turned)
   \<and> GetOrientation (UpdateImpl_at world_turned_moving link_turned_moving sensor_loaded_turned)
       = Quaternion_identity"
proof -
  have r: "rot (Pose_plus (pose sensor_loaded_turned) (GetWorldPose (link_at world_turned_moving 0)))
       = rot (referencePose sensor_loaded_turned)"
    by (simp add: sensor_loaded_turned_fields link_turned_moving_fields)
       (simp add: math_defs)
  have n: "rot (referencePose sensor_loaded_turned) \<noteq> Quat 0 0 0 0"
    by (simp add: sensor_loaded_turned_fields Quat_def)
  have p: "parentEntity sensor_loaded_turned = Some 0"
    by (simp add: sensor_loaded_turned_fields)
  note th = orientation_relative_to_reference [OF p, of world_turned_moving]
  have a: "UpdateImpl world_turned_moving sensor_loaded_turned
       = Inr (UpdateImpl_at world_turned_moving link_turned_moving sensor_loaded_turned)"
    using th [THEN conjunct1] by (simp add: link_turned_moving_fields)
  have b: "GetOrientation (UpdateImpl_at world_turned_moving link_turned_moving sensor_loaded_turned)
       = Quaternion_identity"
    using th [THEN conjunct2, THEN conjunct2] r n by (simp add: link_turned_moving_fields)
  from p r n a b show ?thesis by simp
qed

subsection \<open>The discovery handshake\<close>

text \<open>
  C7. A response that arrives while no request is outstanding, or whose id is not the id
  of the outstanding request, returns the sensor as it was: the subscription is not
  established and the request stays outstanding. A response with the id of the outstanding
  request, on a sensor whose parent is resolved, subscribes \<^verbatim>\<open>OnLinkData\<close> to the topic
  of the parent's scoped name and clears the request; every response after it, the same
  one included, returns the sensor as it then is.
\<close>

theorem OnResponse_accepts_only_matching_id:
  "(requestMsg s = None \<longrightarrow> OnResponse w msg s = Inr s)
   \<and> (\<forall>r. requestMsg s = Some r \<and> response_id msg \<noteq> request_id r
          \<longrightarrow> OnResponse w msg s = Inr s)
   \<and> (\<forall>r p. requestMsg s = Some r \<and> response_id msg = request_id r \<and> parentEntity s = Some p
          \<longrightarrow> OnResponse w msg s
                = Inr (s\<lparr>responseSub := Some (''~/'' @ GetScopedName (link_at w p), CbOnLinkData),
                         requestMsg := None\<rparr>)
              \<and> (\<forall>w' msg'.
                    OnResponse w' msg'
                      (s\<lparr>responseSub := Some (''~/'' @ GetScopedName (link_at w p), CbOnLinkData),
                         requestMsg := None\<rparr>)
                    = Inr (s\<lparr>responseSub := Some (''~/'' @ GetScopedName (link_at w p), CbOnLinkData),
                             requestMsg := None\<rparr>)))"
  by (simp add: OnResponse_def Let_def)

lemma sensor_awaiting_fields:
  "requestMsg sensor_awaiting = Some \<lparr>request_id = 7, request = ''link_publish''\<rparr>"
  "parentEntity sensor_awaiting = Some 0"
  "responseSub sensor_awaiting = Some (''~/response'', CbOnResponse)"
  by (simp_all add: sensor_awaiting_def Load_sdf_def Let_def Sensor_Load_sdf_def CreateRequest_def
      sensor_on_link_def ImuSensor_ctor_def)

theorem OnResponse_accepts_only_matching_id_witness:
  "requestMsg sensor_subscribed = None
   \<and> OnResponse world_at_rest \<lparr>response_id = 7\<rparr> sensor_subscribed = Inr sensor_subscribed
   \<and> requestMsg sensor_awaiting = Some \<lparr>request_id = 7, request = ''link_publish''\<rparr>
   \<and> parentEntity sensor_awaiting = Some 0
   \<and> OnResponse world_at_rest \<lparr>response_id = 8\<rparr> sensor_awaiting = Inr sensor_awaiting
   \<and> responseSub sensor_awaiting = Some (''~/response'', CbOnResponse)
   \<and> OnResponse world_at_rest \<lparr>response_id = 7\<rparr> sensor_awaiting = Inr sensor_subscribed
   \<and> responseSub sensor_subscribed = Some (''~/model::link'', CbOnLinkData)"
proof -
  have n: "requestMsg sensor_subscribed = None"
    by (simp add: sensor_subscribed_def)
  have a: "OnResponse world_at_rest \<lparr>response_id = 7\<rparr> sensor_subscribed = Inr sensor_subscribed"
    using OnResponse_accepts_only_matching_id
            [of sensor_subscribed world_at_rest "\<lparr>response_id = 7\<rparr>", THEN conjunct1] n
    by simp
  have b: "OnResponse world_at_rest \<lparr>response_id = 8\<rparr> sensor_awaiting = Inr sensor_awaiting"
    using OnResponse_accepts_only_matching_id
            [of sensor_awaiting world_at_rest "\<lparr>response_id = 8\<rparr>", THEN conjunct2, THEN conjunct1]
    by (simp add: sensor_awaiting_fields)
  have c: "OnResponse world_at_rest \<lparr>response_id = 7\<rparr> sensor_awaiting = Inr sensor_subscribed"
    using OnResponse_accepts_only_matching_id
            [of sensor_awaiting world_at_rest "\<lparr>response_id = 7\<rparr>", THEN conjunct2, THEN conjunct2]
    by (simp add: sensor_awaiting_fields sensor_subscribed_def link_at_rest_fields link_at_rest_def)
  have d: "responseSub sensor_subscribed = Some (''~/model::link'', CbOnLinkData)"
    by (simp add: sensor_subscribed_def)
  from n a b c d show ?thesis
    by (simp add: sensor_awaiting_fields)
qed

subsection \<open>Loading\<close>

text \<open>
  C8. \<^verbatim>\<open>Load\<close> throws exactly when the entity named \<^verbatim>\<open>parentName\<close> is missing from
  the world or is not a link, and then with the message of \<^verbatim>\<open>gzthrow\<close>. When the entity
  is a link, \<^verbatim>\<open>Load\<close> returns a sensor whose \<^verbatim>\<open>parentEntity\<close> is that link (not null) and
  whose reference pose is the sensor's pose composed onto the link's world pose.
\<close>

theorem Load_fails_iff_parent_is_not_a_link:
  "(isl (Load w s) \<longleftrightarrow> dynamic_cast_Link (GetEntity w (parentName s)) = None)
   \<and> (dynamic_cast_Link (GetEntity w (parentName s)) = None
        \<longrightarrow> Load w s = Inl (GzThrow (''IMU has invalid paret['' @ parentName s
                                        @ '']. Must be a link'' @ [CHR 0x0A])))
   \<and> (\<forall>p. dynamic_cast_Link (GetEntity w (parentName s)) = Some p
        \<longrightarrow> (\<exists>s'. Load w s = Inr s'
                   \<and> parentEntity s' = Some p
                   \<and> referencePose s' = Pose_plus (pose s) (GetWorldPose (link_at w p))
                   \<and> lastLinearVel s'
                       = RotateVector (rot (referencePose s')) (GetWorldLinearVel (link_at w p))))"
  by (cases "dynamic_cast_Link (GetEntity w (parentName s))") (simp_all add: Load_def Let_def)

theorem Load_fails_iff_parent_is_not_a_link_witness:
  "dynamic_cast_Link (GetEntity world_at_rest (parentName (sensor_before_load\<lparr>parentName := ''model''\<rparr>)))
      = None
   \<and> isl (Load world_at_rest (sensor_before_load\<lparr>parentName := ''model''\<rparr>))
   \<and> dynamic_cast_Link (GetEntity world_at_rest (parentName (sensor_before_load\<lparr>parentName := ''nothing''\<rparr>)))
      = None
   \<and> Load world_at_rest (sensor_before_load\<lparr>parentName := ''nothing''\<rparr>)
      = Inl (GzThrow (''IMU has invalid paret[nothing]. Must be a link'' @ [CHR 0x0A]))
   \<and> dynamic_cast_Link (GetEntity world_at_rest (parentName sensor_before_load)) = Some 0
   \<and> \<not> isl (Load world_at_rest sensor_before_load)"
proof -
  have a: "dynamic_cast_Link (GetEntity world_at_rest (parentName (sensor_before_load\<lparr>parentName := ''model''\<rparr>)))
      = None"
    by (simp add: world_at_rest_def)
  have b: "dynamic_cast_Link (GetEntity world_at_rest (parentName (sensor_before_load\<lparr>parentName := ''nothing''\<rparr>)))
      = None"
    by (simp add: world_at_rest_def)
  have c: "dynamic_cast_Link (GetEntity world_at_rest (parentName sensor_before_load)) = Some 0"
    by (simp add: world_at_rest_def sensor_before_load_def)
  have a': "isl (Load world_at_rest (sensor_before_load\<lparr>parentName := ''model''\<rparr>))"
    using Load_fails_iff_parent_is_not_a_link
            [of world_at_rest "sensor_before_load\<lparr>parentName := ''model''\<rparr>", THEN conjunct1] a
    by simp
  have b': "Load world_at_rest (sensor_before_load\<lparr>parentName := ''nothing''\<rparr>)
      = Inl (GzThrow (''IMU has invalid paret[nothing]. Must be a link'' @ [CHR 0x0A]))"
    using Load_fails_iff_parent_is_not_a_link
            [of world_at_rest "sensor_before_load\<lparr>parentName := ''nothing''\<rparr>",
             THEN conjunct2, THEN conjunct1] b
    by simp
  have c': "\<not> isl (Load world_at_rest sensor_before_load)"
    using Load_fails_iff_parent_is_not_a_link
            [of world_at_rest sensor_before_load, THEN conjunct1] c
    by simp
  from a a' b b' c c' show ?thesis by simp
qed

subsection \<open>Runs of a loaded sensor\<close>

lemma published_readings_UpdateImpl_at:
  "published_readings (UpdateImpl_at w l s) =
     published_readings s + (if pub s = None then 0 else 1)"
  by (simp add: published_readings_def UpdateImpl_at_sent split: option.split)

lemma OnLinkData_frame:
  "parentEntity (OnLinkData m s) = parentEntity s"
  "pub (OnLinkData m s) = pub s"
  "sent (OnLinkData m s) = sent s"
  "imuMsg (OnLinkData m s) = imuMsg s"
  by (simp_all add: OnLinkData_def Let_def)

lemma step_resolved:
  assumes "parentEntity s = Some p"
  shows "\<exists>s'. step e s = Inr s' \<and> parentEntity s' = Some p \<and> pub s' = pub s
               \<and> published_readings s'
                   = published_readings s + (if is_update e \<and> pub s \<noteq> None then 1 else 0)
               \<and> (\<not> is_update e \<longrightarrow> imuMsg s' = imuMsg s)"
proof (cases e)
  case (Response_ev w m)
  with assms show ?thesis
    by (simp add: OnResponse_def Let_def published_readings_def split: option.split)
next
  case (LinkData_ev m)
  with assms show ?thesis
    by (simp add: OnLinkData_frame published_readings_def)
next
  case (Update_ev w)
  with assms show ?thesis
    by (simp add: UpdateImpl_def UpdateImpl_at_frame published_readings_UpdateImpl_at)
next
  case (SetReferencePose_ev w)
  with assms show ?thesis
    by (simp add: SetReferencePose_def published_readings_def)
next
  case (SetActive_ev b)
  with assms show ?thesis
    by (simp add: SetActive_def published_readings_def)
qed

lemma run_resolved:
  "parentEntity s = Some p \<Longrightarrow> pub s = Some t \<Longrightarrow>
   \<exists>s'. run es s = Inr s' \<and> parentEntity s' = Some p \<and> pub s' = Some t
        \<and> published_readings s' = published_readings s + updates es"
proof (induction es arbitrary: s)
  case Nil
  then show ?case by (simp add: updates_def)
next
  case (Cons e es)
  from step_resolved [OF Cons.prems(1), of e] obtain s1 where
    s1: "step e s = Inr s1" "parentEntity s1 = Some p" "pub s1 = pub s"
      "published_readings s1
         = published_readings s + (if is_update e \<and> pub s \<noteq> None then 1 else 0)"
    by blast
  from s1(3) Cons.prems(2) have "pub s1 = Some t" by simp
  from Cons.IH [OF s1(2) this] obtain s' where
    s': "run es s1 = Inr s'" "parentEntity s' = Some p" "pub s' = Some t"
      "published_readings s' = published_readings s1 + updates es"
    by blast
  from s1 s' Cons.prems(2) show ?case
    by (simp add: updates_def)
qed

lemma run_keeps_reading:
  "parentEntity s = Some p \<Longrightarrow> updates es = 0 \<Longrightarrow>
   \<exists>s'. run es s = Inr s' \<and> imuMsg s' = imuMsg s"
proof (induction es arbitrary: s)
  case Nil
  then show ?case by simp
next
  case (Cons e es)
  from Cons.prems(2) have ne: "\<not> is_update e" and rest: "updates es = 0"
    by (simp_all add: updates_def split: if_splits)
  from step_resolved [OF Cons.prems(1), of e] ne obtain s1 where
    s1: "step e s = Inr s1" "parentEntity s1 = Some p" "imuMsg s1 = imuMsg s"
    by blast
  from Cons.IH [OF s1(2) rest] obtain s' where "run es s1 = Inr s'" "imuMsg s' = imuMsg s1"
    by blast
  with s1 show ?case by simp
qed

lemma Load_sdf_fields:
  "pub (Load_sdf d fresh s) =
     Some (case imu d of
             None \<Rightarrow> replace_all_colons (''~/'' @ parentName s @ ''/'' @ GetName s @ ''/imu'')
           | Some e \<Rightarrow>
               (case topic e of
                  None \<Rightarrow> replace_all_colons (''~/'' @ parentName s @ ''/'' @ GetName s @ ''/imu'')
                | Some t \<Rightarrow>
                    if t \<noteq> ''__default_topic__'' then t
                    else replace_all_colons (''~/'' @ parentName s @ ''/'' @ GetName s @ ''/imu'')))"
  "parentEntity (Load_sdf d fresh s) = parentEntity s"
  "sent (Load_sdf d fresh s) = sent s @ [(''~/request'', Request_wire (CreateRequest ''link_publish'' fresh))]"
  by (simp_all add: Load_sdf_def Sensor_Load_sdf_def GetName_def Let_def split: option.split)

text \<open>
  C9. \<^verbatim>\<open>Load\<close> with a description sets \<^verbatim>\<open>pub\<close> in both branches: to the topic of the
  description when it names one other than \<open>__default_topic__\<close>, to the default topic
  otherwise. On a sensor whose parent is resolved, every run of responses, samples, ticks,
  re-zeroings and activation changes after it succeeds and keeps that publisher, the
  number of IMU messages handed to the transport grows by exactly the number of ticks of
  the run, and the next tick appends exactly one IMU message on the publisher's topic.
\<close>

theorem loaded_sensor_publishes_every_tick:
  assumes "parentEntity s = Some p"
  shows "pub (Load_sdf d fresh s) =
           Some (case imu d of
                   None \<Rightarrow> replace_all_colons (''~/'' @ parentName s @ ''/'' @ GetName s @ ''/imu'')
                 | Some e \<Rightarrow>
                     (case topic e of
                        None \<Rightarrow> replace_all_colons (''~/'' @ parentName s @ ''/'' @ GetName s @ ''/imu'')
                      | Some t \<Rightarrow>
                          if t \<noteq> ''__default_topic__'' then t
                          else replace_all_colons (''~/'' @ parentName s @ ''/'' @ GetName s @ ''/imu'')))
         \<and> (\<exists>s' t. run es (Load_sdf d fresh s) = Inr s'
                \<and> pub (Load_sdf d fresh s) = Some t
                \<and> pub s' = Some t
                \<and> published_readings s' = published_readings s + updates es
                \<and> UpdateImpl w s' = Inr (UpdateImpl_at w (link_at w p) s')
                \<and> sent (UpdateImpl_at w (link_at w p) s')
                    = sent s' @ [(t, IMU_wire (imuMsg (UpdateImpl_at w (link_at w p) s')))])"
proof -
  let ?s0 = "Load_sdf d fresh s"
  obtain t where t: "pub ?s0 = Some t"
    by (simp add: Load_sdf_fields)
  have p0: "parentEntity ?s0 = Some p"
    using assms by (simp add: Load_sdf_fields)
  have r0: "published_readings ?s0 = published_readings s"
    by (simp add: published_readings_def Load_sdf_fields)
  from run_resolved [OF p0 t, of es] obtain s' where
    s': "run es ?s0 = Inr s'" "parentEntity s' = Some p" "pub s' = Some t"
      "published_readings s' = published_readings ?s0 + updates es"
    by blast
  have one: "sent (UpdateImpl_at w (link_at w p) s')
               = sent s' @ [(t, IMU_wire (imuMsg (UpdateImpl_at w (link_at w p) s')))]"
    using s'(3) by (simp add: UpdateImpl_at_sent)
  have upd: "UpdateImpl w s' = Inr (UpdateImpl_at w (link_at w p) s')"
    using s'(2) by (simp add: UpdateImpl_def)
  have "\<exists>s' t. run es ?s0 = Inr s' \<and> pub ?s0 = Some t \<and> pub s' = Some t
                \<and> published_readings s' = published_readings s + updates es
                \<and> UpdateImpl w s' = Inr (UpdateImpl_at w (link_at w p) s')
                \<and> sent (UpdateImpl_at w (link_at w p) s')
                    = sent s' @ [(t, IMU_wire (imuMsg (UpdateImpl_at w (link_at w p) s')))]"
    using s' t r0 one upd by auto
  then show ?thesis
    by (simp add: Load_sdf_fields(1))
qed

theorem loaded_sensor_publishes_every_tick_witness:
  "parentEntity sensor_on_link = Some 0
   \<and> pub (Load_sdf \<lparr>imu = None\<rparr> 7 sensor_on_link) = Some ''~/model/link/imu/imu''
   \<and> pub (Load_sdf \<lparr>imu = Some \<lparr>topic = Some ''/my/imu''\<rparr>\<rparr> 7 sensor_on_link) = Some ''/my/imu''
   \<and> (\<exists>s'. run [Update_ev world_at_rest, LinkData_ev sample_spinning, Update_ev world_at_rest]
               (Load_sdf \<lparr>imu = None\<rparr> 7 sensor_on_link) = Inr s'
            \<and> pub s' = Some ''~/model/link/imu/imu''
            \<and> published_readings s' = 2)"
proof -
  have p: "parentEntity sensor_on_link = Some 0"
    by (simp add: sensor_on_link_fields)
  have n: "parentName sensor_on_link = ''model::link''" "GetName sensor_on_link = ''imu''"
    "published_readings sensor_on_link = 0"
    by (simp_all add: sensor_on_link_def ImuSensor_ctor_def GetName_def published_readings_def)
  have a: "pub (Load_sdf \<lparr>imu = None\<rparr> 7 sensor_on_link) = Some ''~/model/link/imu/imu''"
    using loaded_sensor_publishes_every_tick [OF p, of "\<lparr>imu = None\<rparr>" 7, THEN conjunct1]
    by (simp add: n)
  have b: "pub (Load_sdf \<lparr>imu = Some \<lparr>topic = Some ''/my/imu''\<rparr>\<rparr> 7 sensor_on_link)
             = Some ''/my/imu''"
    using loaded_sensor_publishes_every_tick
            [OF p, of "\<lparr>imu = Some \<lparr>topic = Some ''/my/imu''\<rparr>\<rparr>" 7, THEN conjunct1]
    by simp
  let ?es = "[Update_ev world_at_rest, LinkData_ev sample_spinning, Update_ev world_at_rest]"
  have k: "updates ?es = 2"
    by (simp add: updates_def)
  from loaded_sensor_publishes_every_tick
         [OF p, where d = "\<lparr>imu = None\<rparr>" and fresh = 7 and es = ?es and w = world_at_rest,
          THEN conjunct2]
  obtain s' t where
    h: "run ?es (Load_sdf \<lparr>imu = None\<rparr> 7 sensor_on_link) = Inr s'"
      "pub (Load_sdf \<lparr>imu = None\<rparr> 7 sensor_on_link) = Some t"
      "pub s' = Some t"
      "published_readings s' = published_readings sensor_on_link + updates ?es"
    by blast
  from h(2) a have t: "t = ''~/model/link/imu/imu''" by simp
  from h(4) have r: "published_readings s' = 2"
    unfolding k n(3) by simp
  from h(1) h(3) t r
  have c: "\<exists>s'. run ?es (Load_sdf \<lparr>imu = None\<rparr> 7 sensor_on_link) = Inr s'
            \<and> pub s' = Some ''~/model/link/imu/imu''
            \<and> published_readings s' = 2"
    by blast
  from p a b c show ?thesis by blast
qed

text \<open>
  C10. The accessors are functions of the sensor object and return no new object: they
  change nothing. After a tick, and after any run of responses, samples, re-zeroings and
  activation changes that follows it without another tick, the message is the one the tick
  assembled and the accessors return its components: the world angular velocity rotated
  into the body frame, the gravity-compensated \<^verbatim>\<open>linearAcc\<close> of the tick, and the
  orientation relative to the reference.
\<close>

theorem accessors_return_last_reading:
  assumes "parentEntity s = Some p" and "updates es = 0"
  shows "\<exists>s1 s2. UpdateImpl w s = Inr s1 \<and> run es s1 = Inr s2
           \<and> imuMsg s2 = imuMsg s1
           \<and> GetAngularVelocity s2 = Convert_Vector3d (angular_velocity (imuMsg s1))
           \<and> GetAngularVelocity s2
               = RotateVector (GetInverse (rot (imuPose (link_at w p) s)))
                   (GetWorldAngularVel (link_at w p))
           \<and> GetLinearAcceleration s2 = Convert_Vector3d (linear_acceleration (imuMsg s1))
           \<and> GetLinearAcceleration s2 = linearAcc s1
           \<and> GetOrientation s2 = Convert_Quaternion (orientation (imuMsg s1))
           \<and> GetOrientation s2
               = Quaternion_mult (rot (imuPose (link_at w p) s))
                   (GetInverse (rot (referencePose s)))"
proof -
  let ?s1 = "UpdateImpl_at w (link_at w p) s"
  have u: "UpdateImpl w s = Inr ?s1"
    using assms(1) by (simp add: UpdateImpl_def)
  have p1: "parentEntity ?s1 = Some p"
    using assms(1) by (simp add: UpdateImpl_at_frame)
  from run_keeps_reading [OF p1 assms(2)] obtain s2 where
    s2: "run es ?s1 = Inr s2" "imuMsg s2 = imuMsg ?s1"
    by blast
  have av: "GetAngularVelocity s2 = GetAngularVelocity ?s1"
    and la: "GetLinearAcceleration s2 = GetLinearAcceleration ?s1"
    and ori: "GetOrientation s2 = GetOrientation ?s1"
    using s2(2)
    by (simp_all add: GetAngularVelocity_def GetLinearAcceleration_def GetOrientation_def)
  show ?thesis
    using u s2 av la ori
    by (simp add: GetAngularVelocity_UpdateImpl_at GetLinearAcceleration_UpdateImpl_at
        GetOrientation_UpdateImpl_at)
       (simp add: GetAngularVelocity_def GetLinearAcceleration_def GetOrientation_def)
qed

theorem accessors_return_last_reading_witness:
  "parentEntity sensor_on_link = Some 0
   \<and> updates [LinkData_ev sample_spinning, SetActive_ev False] = 0
   \<and> (\<exists>s2. run [LinkData_ev sample_spinning, SetActive_ev False] sensor_after_first_tick = Inr s2
          \<and> GetAngularVelocity s2 = Vec 0 0 0
          \<and> GetLinearAcceleration s2 = Vec 0 0 9.8
          \<and> GetOrientation s2 = Quaternion_identity)"
proof -
  have p: "parentEntity sensor_on_link = Some 0"
    by (simp add: sensor_on_link_fields)
  have n: "updates [LinkData_ev sample_spinning, SetActive_ev False] = 0"
    by (simp add: updates_def)
  have u: "UpdateImpl world_at_rest sensor_on_link = Inr sensor_after_first_tick"
    by (simp add: UpdateImpl_def sensor_on_link_fields link_at_rest_fields
        sensor_after_first_tick_def)
  have av: "RotateVector (GetInverse (rot (imuPose (link_at world_at_rest 0) sensor_on_link)))
              (GetWorldAngularVel (link_at world_at_rest 0)) = Vec 0 0 0"
    by (simp add: imuPose_def sensor_on_link_fields link_at_rest_fields) (simp add: math_defs)
  have ori: "Quaternion_mult (rot (imuPose (link_at world_at_rest 0) sensor_on_link))
               (GetInverse (rot (referencePose sensor_on_link))) = Quaternion_identity"
    by (simp add: imuPose_def sensor_on_link_fields link_at_rest_fields) (simp add: math_defs)
  from accessors_return_last_reading [OF p n, of world_at_rest] obtain s1 s2 where
    h: "UpdateImpl world_at_rest sensor_on_link = Inr s1"
      "run [LinkData_ev sample_spinning, SetActive_ev False] s1 = Inr s2"
      "GetAngularVelocity s2
         = RotateVector (GetInverse (rot (imuPose (link_at world_at_rest 0) sensor_on_link)))
             (GetWorldAngularVel (link_at world_at_rest 0))"
      "GetLinearAcceleration s2 = linearAcc s1"
      "GetOrientation s2
         = Quaternion_mult (rot (imuPose (link_at world_at_rest 0) sensor_on_link))
             (GetInverse (rot (referencePose sensor_on_link)))"
    by blast
  from h(1) u have s1: "s1 = sensor_after_first_tick" by simp
  have "run [LinkData_ev sample_spinning, SetActive_ev False] sensor_after_first_tick = Inr s2
          \<and> GetAngularVelocity s2 = Vec 0 0 0
          \<and> GetLinearAcceleration s2 = Vec 0 0 9.8
          \<and> GetOrientation s2 = Quaternion_identity"
    using h(2-5) s1 av ori first_tick_at_rest(2) by simp
  with p n show ?thesis by blast
qed

end
